theory Spec2Isabelle
  imports Main "HOL-Library.Sublist"
begin

section \<open>Data model\<close>

text \<open>
  Modelled from the spec: the declarations of \<open>Comment\<close>, \<open>Answer\<close>, \<open>Question\<close> and
  \<open>VoteData\<close> (module \<open>types\<close>, imported by \<open>useAnswerPage.ts\<close>) are not among the
  sources. The records below carry the fields the hook reads or writes (\<open>_id\<close>,
  \<open>answers\<close>, \<open>upVotes\<close>, \<open>downVotes\<close>, \<open>pinned\<close>, \<open>locked\<close>, \<open>qid\<close>) and the remaining
  fields of the spec's data model (body text, author, creation metadata, view count,
  correctness flag, comments). A field \<open>_id\<close> is written \<open>c_id\<close>, \<open>a_id\<close>, \<open>q_id\<close>;
  fields of an answer that share a name with one of a question carry the prefix \<open>a_\<close>.
\<close>

record Comment =
  c_id :: string
  c_text :: string
  commentBy :: string
  commentDateTime :: string

record Answer =
  a_id :: string
  a_text :: string
  ansBy :: string
  ansDateTime :: string
  isCorrect :: bool
  a_pinned :: bool
  a_locked :: bool
  a_comments :: "Comment list"

record Question =
  q_id :: string
  q_text :: string
  askedBy :: string
  askDateTime :: string
  views :: int
  pinned :: bool
  locked :: bool
  upVotes :: "string list"
  downVotes :: "string list"
  answers :: "Answer list"
  comments :: "Comment list"

record VoteData =
  vd_qid :: string
  vd_upVotes :: "string list"
  vd_downVotes :: "string list"

text \<open>The payload of an \<open>answerUpdate\<close> event: \<open>{ qid, answer, removed }\<close>.\<close>

record AnswerUpdate =
  au_qid :: string
  au_answer :: Answer
  au_removed :: bool

text \<open>
  The payload of a \<open>commentUpdate\<close> event, \<open>{ result: Question | Answer, type }\<close>. The
  handler casts \<open>result\<close> by the tag (\<open>as Question\<close>, \<open>as Answer\<close>), so the payload is the
  tagged choice of the two.
\<close>

datatype CommentUpdate = OnQuestion Question | OnAnswer Answer

text \<open>The payload of a \<open>questionUpdate\<close> event: \<open>{ quest, removed }\<close>.\<close>

record QuestionRepaint =
  quest :: Question
  qr_removed :: bool

datatype target_kind = TQuestion | TAnswer

datatype error = Error string

section \<open>The state of the hook\<close>

text \<open>
  \<open>questionID\<close> and \<open>question\<close> are the two \<open>useState\<close> cells of \<open>useAnswerPage\<close>. The
  other three fields record the effects the hook has on its collaborators: the paths
  given to \<open>navigate\<close>, the calls of \<open>addComment\<close>, and the lines of \<open>console.error\<close>.
\<close>

record hook_state =
  questionID :: string
  question :: "Question option"
  navigated :: "string list"
  requests :: "(string \<times> target_kind \<times> Comment) list"
  console :: "(string \<times> error) list"

text \<open>\<open>setQuestion\<close> with an updater function, and with a value (\<open>setQuestion(q)\<close>).\<close>

definition setQuestion :: "(Question option \<Rightarrow> Question option) \<Rightarrow> hook_state \<Rightarrow> hook_state" where
  "setQuestion f s = s\<lparr>question := f (question s)\<rparr>"

definition setQuestionTo :: "Question \<Rightarrow> hook_state \<Rightarrow> hook_state" where
  "setQuestionTo q s = s\<lparr>question := Some q\<rparr>"

definition navigate :: "string \<Rightarrow> hook_state \<Rightarrow> hook_state" where
  "navigate path s = s\<lparr>navigated := navigated s @ [path]\<rparr>"

section \<open>The event handlers\<close>

definition handleAnswerUpdate :: "AnswerUpdate \<Rightarrow> hook_state \<Rightarrow> hook_state" where
  "handleAnswerUpdate ev s =
     (if au_qid ev = questionID s then
        setQuestion (\<lambda>prevQuestion.
          case prevQuestion of
            Some pq \<Rightarrow> Some (pq\<lparr>answers :=
              (if au_removed ev
               then filter (\<lambda>ans. a_id ans \<noteq> a_id (au_answer ev)) (answers pq)
               else map (\<lambda>ans. if a_id ans = a_id (au_answer ev) then au_answer ev else ans)
                      (answers pq))\<rparr>)
          | None \<Rightarrow> prevQuestion) s
      else s)"

definition handleCommentUpdate :: "CommentUpdate \<Rightarrow> hook_state \<Rightarrow> hook_state" where
  "handleCommentUpdate ev s =
     (case ev of
        OnQuestion questionResult \<Rightarrow>
          (if q_id questionResult = questionID s then setQuestionTo questionResult s else s)
      | OnAnswer result \<Rightarrow>
          setQuestion (\<lambda>prevQuestion.
            case prevQuestion of
              Some pq \<Rightarrow> Some (pq\<lparr>answers :=
                map (\<lambda>a. if a_id a = a_id result then result else a) (answers pq)\<rparr>)
            | None \<Rightarrow> prevQuestion) s)"

definition handleViewsUpdate :: "Question \<Rightarrow> hook_state \<Rightarrow> hook_state" where
  "handleViewsUpdate q s = (if q_id q = questionID s then setQuestionTo q s else s)"

definition handleVoteUpdate :: "VoteData \<Rightarrow> hook_state \<Rightarrow> hook_state" where
  "handleVoteUpdate voteData s =
     (if vd_qid voteData = questionID s then
        setQuestion (\<lambda>prevQuestion.
          case prevQuestion of
            Some pq \<Rightarrow> Some (pq\<lparr>upVotes := vd_upVotes voteData,
                                downVotes := vd_downVotes voteData\<rparr>)
          | None \<Rightarrow> prevQuestion) s
      else s)"

definition handleQuestionRepaint :: "QuestionRepaint \<Rightarrow> hook_state \<Rightarrow> hook_state" where
  "handleQuestionRepaint ev s =
     (if q_id (quest ev) = questionID s then
        (if qr_removed ev then navigate ''/home'' s
         else setQuestion (\<lambda>prevQuestion.
           case prevQuestion of
             Some pq \<Rightarrow> Some (pq\<lparr>pinned := pinned (quest ev), locked := locked (quest ev)\<rparr>)
           | None \<Rightarrow> prevQuestion) s)
      else s)"

text \<open>
  The five registrations \<open>socket.on(name, handler)\<close>: an event is the name together with
  its payload, and delivering it runs the handler registered under that name.
\<close>

datatype event =
    AnswerUpdateEv AnswerUpdate
  | ViewsUpdateEv Question
  | CommentUpdateEv CommentUpdate
  | VoteUpdateEv VoteData
  | QuestionUpdateEv QuestionRepaint

fun deliver :: "event \<Rightarrow> hook_state \<Rightarrow> hook_state" where
  "deliver (AnswerUpdateEv p) s = handleAnswerUpdate p s"
| "deliver (ViewsUpdateEv p) s = handleViewsUpdate p s"
| "deliver (CommentUpdateEv p) s = handleCommentUpdate p s"
| "deliver (VoteUpdateEv p) s = handleVoteUpdate p s"
| "deliver (QuestionUpdateEv p) s = handleQuestionRepaint p s"

text \<open>
  The spec's "target identifier" of a payload: the \<open>qid\<close> of an answer or vote event,
  the \<open>_id\<close> of the object carried by a view, comment or repaint event.
\<close>

fun target_id :: "event \<Rightarrow> string" where
  "target_id (AnswerUpdateEv p) = au_qid p"
| "target_id (ViewsUpdateEv q) = q_id q"
| "target_id (CommentUpdateEv (OnQuestion q)) = q_id q"
| "target_id (CommentUpdateEv (OnAnswer a)) = a_id a"
| "target_id (VoteUpdateEv v) = vd_qid v"
| "target_id (QuestionUpdateEv p) = q_id (quest p)"

text \<open>
  Whether the payload of an event names a question: every payload does, except that of a
  comment event on an answer, which carries the answer alone.
\<close>

fun carries_aggregate_id :: "event \<Rightarrow> bool" where
  "carries_aggregate_id (CommentUpdateEv (OnAnswer a)) = False"
| "carries_aggregate_id ev = True"

section \<open>Submitting a comment\<close>

text \<open>
  \<open>addComment\<close> (module \<open>commentService\<close>) is a collaborator outside the sources: its
  outcome is the parameter \<open>gw\<close>, \<open>Inl e\<close> for a rejection with \<open>e\<close>. Calling it is
  recorded in \<open>requests\<close>.
\<close>

type_synonym gateway = "string \<Rightarrow> target_kind \<Rightarrow> Comment \<Rightarrow> error + unit"

definition addComment :: "gateway \<Rightarrow> string \<Rightarrow> target_kind \<Rightarrow> Comment \<Rightarrow> hook_state \<Rightarrow> (error + unit) \<times> hook_state" where
  "addComment gw targetId targetType comment s =
     (gw targetId targetType comment, s\<lparr>requests := requests s @ [(targetId, targetType, comment)]\<rparr>)"

definition console_error :: "string \<Rightarrow> error \<Rightarrow> hook_state \<Rightarrow> hook_state" where
  "console_error msg e s = s\<lparr>console := console s @ [(msg, e)]\<rparr>"

text \<open>
  The body of the \<open>try\<close> block, then the \<open>catch\<close>. The result is how the promise of the
  \<open>async\<close> function settles: \<open>Inr ()\<close> resolved, \<open>Inl e\<close> rejected with \<open>e\<close>.
\<close>

definition handleNewComment_try :: "gateway \<Rightarrow> Comment \<Rightarrow> target_kind \<Rightarrow> string option \<Rightarrow> hook_state \<Rightarrow> (error + unit) \<times> hook_state" where
  "handleNewComment_try gw comment targetType targetId s =
     (case targetId of
        None \<Rightarrow> (Inl (Error ''No target ID provided.''), s)
      | Some t \<Rightarrow> addComment gw t targetType comment s)"

definition handleNewComment :: "gateway \<Rightarrow> Comment \<Rightarrow> target_kind \<Rightarrow> string option \<Rightarrow> hook_state \<Rightarrow> (error + unit) \<times> hook_state" where
  "handleNewComment gw comment targetType targetId s =
     (case handleNewComment_try gw comment targetType targetId s of
        (Inl e, s') \<Rightarrow> (Inr (), console_error ''Error adding comment:'' e s')
      | (Inr u, s') \<Rightarrow> (Inr u, s'))"

section \<open>Sample data\<close>

definition sampleAnswer :: "string \<Rightarrow> string \<Rightarrow> Answer" where
  "sampleAnswer i t = \<lparr>a_id = i, a_text = t, ansBy = ''ann'', ansDateTime = ''d1'',
     isCorrect = False, a_pinned = False, a_locked = False, a_comments = []\<rparr>"

definition sampleQuestion :: "string \<Rightarrow> Answer list \<Rightarrow> Question" where
  "sampleQuestion i as = \<lparr>q_id = i, q_text = ''body'', askedBy = ''bob'', askDateTime = ''d0'',
     views = 3, pinned = False, locked = False, upVotes = [''u1''], downVotes = [''u2''],
     answers = as, comments = []\<rparr>"

definition sampleState :: "string \<Rightarrow> Question option \<Rightarrow> hook_state" where
  "sampleState i q = \<lparr>questionID = i, question = q, navigated = [], requests = [], console = []\<rparr>"

definition sampleComment :: Comment where
  "sampleComment = \<lparr>c_id = ''C1'', c_text = ''hello'', commentBy = ''ann'', commentDateTime = ''d2''\<rparr>"

text \<open>A gateway that rejects every request.\<close>

definition rejecting :: gateway where
  "rejecting targetId targetType comment = Inl (Error ''rejected'')"

section \<open>Properties\<close>

lemma filter_map_id_length:
  "distinct (map f xs) \<Longrightarrow> x \<in> f ` set xs \<Longrightarrow> Suc (length (filter (\<lambda>a. f a \<noteq> x) xs)) = length xs"
proof (induction xs)
  case Nil
  then show ?case by simp
next
  case (Cons y ys)
  show ?case
  proof (cases "f y = x")
    case True
    with Cons.prems have "x \<notin> f ` set ys" by auto
    then have "filter (\<lambda>a. f a \<noteq> x) ys = ys" by (auto simp: filter_id_conv)
    with True show ?thesis by simp
  next
    case False
    with Cons show ?thesis by auto
  qed
qed

lemma map_replace_absent:
  "x \<notin> f ` set xs \<Longrightarrow> map (\<lambda>a. if f a = x then r else a) xs = xs"
  by (induction xs) auto

lemma map_replace_twice:
  "f r = x \<Longrightarrow> map (\<lambda>a. if f a = x then r else a) (map (\<lambda>a. if f a = x then r else a) xs)
     = map (\<lambda>a. if f a = x then r else a) xs"
  by (induction xs) auto

subsection \<open>Answer events\<close>

text \<open>
  Claim C1. With a cached question and an answer event whose \<open>qid\<close> is the active
  identifier, only the answer sequence of the cached question changes. With \<open>removed\<close>
  set, the new sequence is the old one without the answers that have the identifier of
  the payload's answer. With \<open>removed\<close> not set, the new sequence has the old length, holds
  the payload's answer at every position whose answer has that identifier and the old
  answer at every other position; when no answer has the identifier the sequence is the
  old one (nothing is appended).
\<close>

theorem answer_update_merge:
  assumes "question s = Some q" and "au_qid ev = questionID s"
  shows "\<exists>as'. handleAnswerUpdate ev s = s\<lparr>question := Some (q\<lparr>answers := as'\<rparr>)\<rparr>
     \<and> (au_removed ev \<longrightarrow> as' = filter (\<lambda>a. a_id a \<noteq> a_id (au_answer ev)) (answers q))
     \<and> (\<not> au_removed ev \<longrightarrow>
          length as' = length (answers q)
          \<and> (\<forall>i < length (answers q).
                as' ! i = (if a_id (answers q ! i) = a_id (au_answer ev) then au_answer ev
                           else answers q ! i))
          \<and> (a_id (au_answer ev) \<notin> a_id ` set (answers q) \<longrightarrow> as' = answers q))"
proof (cases "au_removed ev")
  case True
  with assms show ?thesis
    by (simp add: handleAnswerUpdate_def setQuestion_def)
next
  case False
  let ?as = "map (\<lambda>ans. if a_id ans = a_id (au_answer ev) then au_answer ev else ans) (answers q)"
  from False assms have "handleAnswerUpdate ev s = s\<lparr>question := Some (q\<lparr>answers := ?as\<rparr>)\<rparr>"
    by (simp add: handleAnswerUpdate_def setQuestion_def)
  moreover have "length ?as = length (answers q)" by simp
  moreover have "\<forall>i < length (answers q).
      ?as ! i = (if a_id (answers q ! i) = a_id (au_answer ev) then au_answer ev else answers q ! i)"
    by simp
  moreover have "a_id (au_answer ev) \<notin> a_id ` set (answers q) \<longrightarrow> ?as = answers q"
    using map_replace_absent [of "a_id (au_answer ev)" a_id "answers q" "au_answer ev"] by blast
  ultimately show ?thesis using False by blast
qed

theorem answer_update_merge_witness:
  "question (sampleState ''Q1'' (Some (sampleQuestion ''Q1''
        [sampleAnswer ''A1'' ''one'', sampleAnswer ''A2'' ''old'', sampleAnswer ''A3'' ''three''])))
     = Some (sampleQuestion ''Q1''
        [sampleAnswer ''A1'' ''one'', sampleAnswer ''A2'' ''old'', sampleAnswer ''A3'' ''three''])
   \<and> au_qid \<lparr>au_qid = ''Q1'', au_answer = sampleAnswer ''A2'' ''new'', au_removed = False\<rparr>
     = questionID (sampleState ''Q1'' (Some (sampleQuestion ''Q1''
        [sampleAnswer ''A1'' ''one'', sampleAnswer ''A2'' ''old'', sampleAnswer ''A3'' ''three''])))
   \<and> handleAnswerUpdate \<lparr>au_qid = ''Q1'', au_answer = sampleAnswer ''A2'' ''new'', au_removed = False\<rparr>
     (sampleState ''Q1'' (Some (sampleQuestion ''Q1''
        [sampleAnswer ''A1'' ''one'', sampleAnswer ''A2'' ''old'', sampleAnswer ''A3'' ''three''])))
   = sampleState ''Q1'' (Some (sampleQuestion ''Q1''
        [sampleAnswer ''A1'' ''one'', sampleAnswer ''A2'' ''new'', sampleAnswer ''A3'' ''three'']))"
  using answer_update_merge [of "sampleState ''Q1'' (Some (sampleQuestion ''Q1''
        [sampleAnswer ''A1'' ''one'', sampleAnswer ''A2'' ''old'', sampleAnswer ''A3'' ''three'']))"
      "sampleQuestion ''Q1''
        [sampleAnswer ''A1'' ''one'', sampleAnswer ''A2'' ''old'', sampleAnswer ''A3'' ''three'']"
      "\<lparr>au_qid = ''Q1'', au_answer = sampleAnswer ''A2'' ''new'', au_removed = False\<rparr>"]
  by (simp add: sampleState_def sampleQuestion_def sampleAnswer_def handleAnswerUpdate_def
      setQuestion_def)

text \<open>
  An answer event whose \<open>qid\<close> is not the active identifier is dropped by the guard of
  \<open>handleAnswerUpdate\<close>, also when \<open>removed\<close> is set and the answer is cached: the
  state after the event is the state before it, and the sequence still has its one answer.
\<close>

theorem removal_counterexample:
  "question (sampleState ''Q1'' (Some (sampleQuestion ''Q1'' [sampleAnswer ''A1'' ''one''])))
     = Some (sampleQuestion ''Q1'' [sampleAnswer ''A1'' ''one''])
   \<and> distinct (map a_id (answers (sampleQuestion ''Q1'' [sampleAnswer ''A1'' ''one''])))
   \<and> au_removed \<lparr>au_qid = ''Q2'', au_answer = sampleAnswer ''A1'' ''one'', au_removed = True\<rparr>
   \<and> a_id (au_answer \<lparr>au_qid = ''Q2'', au_answer = sampleAnswer ''A1'' ''one'', au_removed = True\<rparr>)
       \<in> a_id ` set (answers (sampleQuestion ''Q1'' [sampleAnswer ''A1'' ''one'']))
   \<and> handleAnswerUpdate \<lparr>au_qid = ''Q2'', au_answer = sampleAnswer ''A1'' ''one'', au_removed = True\<rparr>
        (sampleState ''Q1'' (Some (sampleQuestion ''Q1'' [sampleAnswer ''A1'' ''one''])))
     = sampleState ''Q1'' (Some (sampleQuestion ''Q1'' [sampleAnswer ''A1'' ''one'']))
   \<and> length (answers (sampleQuestion ''Q1'' [sampleAnswer ''A1'' ''one''])) = 1"
  by (simp add: sampleState_def sampleQuestion_def sampleAnswer_def handleAnswerUpdate_def)

text \<open>
  Claim C7. With a cached question whose answer identifiers are pairwise distinct, an
  answer event whose \<open>qid\<close> is the active identifier, with \<open>removed\<close> set and an answer
  whose identifier occurs in the sequence, leaves a sequence that is shorter by exactly
  one: it is the old sequence restricted to the answers with another identifier, so each
  of them is still there, in the old relative order.
\<close>

theorem removal_decreases_by_one:
  assumes "question s = Some q" and "au_qid ev = questionID s" and "au_removed ev"
    and "distinct (map a_id (answers q))"
    and "a_id (au_answer ev) \<in> a_id ` set (answers q)"
  shows "\<exists>q'. question (handleAnswerUpdate ev s) = Some q'
     \<and> Suc (length (answers q')) = length (answers q)
     \<and> answers q' = filter (\<lambda>a. a_id a \<noteq> a_id (au_answer ev)) (answers q)
     \<and> (\<forall>a \<in> set (answers q). a_id a \<noteq> a_id (au_answer ev) \<longrightarrow> a \<in> set (answers q'))
     \<and> subseq (answers q') (answers q)"
proof -
  let ?as = "filter (\<lambda>a. a_id a \<noteq> a_id (au_answer ev)) (answers q)"
  from assms(1-3) have "question (handleAnswerUpdate ev s) = Some (q\<lparr>answers := ?as\<rparr>)"
    by (simp add: handleAnswerUpdate_def setQuestion_def)
  moreover from assms(4,5) have "Suc (length ?as) = length (answers q)"
    by (rule filter_map_id_length)
  moreover have "\<forall>a \<in> set (answers q). a_id a \<noteq> a_id (au_answer ev) \<longrightarrow> a \<in> set ?as"
    by simp
  moreover have "subseq ?as (answers q)" by (rule subseq_filter_left)
  ultimately show ?thesis by simp
qed

theorem removal_decreases_by_one_witness:
  "question (sampleState ''Q1'' (Some (sampleQuestion ''Q1''
       [sampleAnswer ''A1'' ''one'', sampleAnswer ''A2'' ''two'', sampleAnswer ''A3'' ''three''])))
     = Some (sampleQuestion ''Q1''
       [sampleAnswer ''A1'' ''one'', sampleAnswer ''A2'' ''two'', sampleAnswer ''A3'' ''three''])
   \<and> au_qid \<lparr>au_qid = ''Q1'', au_answer = sampleAnswer ''A2'' ''two'', au_removed = True\<rparr>
     = questionID (sampleState ''Q1'' (Some (sampleQuestion ''Q1''
       [sampleAnswer ''A1'' ''one'', sampleAnswer ''A2'' ''two'', sampleAnswer ''A3'' ''three''])))
   \<and> au_removed \<lparr>au_qid = ''Q1'', au_answer = sampleAnswer ''A2'' ''two'', au_removed = True\<rparr>
   \<and> distinct (map a_id (answers (sampleQuestion ''Q1''
       [sampleAnswer ''A1'' ''one'', sampleAnswer ''A2'' ''two'', sampleAnswer ''A3'' ''three''])))
   \<and> a_id (au_answer \<lparr>au_qid = ''Q1'', au_answer = sampleAnswer ''A2'' ''two'', au_removed = True\<rparr>)
     \<in> a_id ` set (answers (sampleQuestion ''Q1''
       [sampleAnswer ''A1'' ''one'', sampleAnswer ''A2'' ''two'', sampleAnswer ''A3'' ''three'']))
   \<and> question (handleAnswerUpdate \<lparr>au_qid = ''Q1'', au_answer = sampleAnswer ''A2'' ''two'', au_removed = True\<rparr>
       (sampleState ''Q1'' (Some (sampleQuestion ''Q1''
         [sampleAnswer ''A1'' ''one'', sampleAnswer ''A2'' ''two'', sampleAnswer ''A3'' ''three'']))))
     = Some (sampleQuestion ''Q1'' [sampleAnswer ''A1'' ''one'', sampleAnswer ''A3'' ''three''])"
  using removal_decreases_by_one [of "sampleState ''Q1'' (Some (sampleQuestion ''Q1''
       [sampleAnswer ''A1'' ''one'', sampleAnswer ''A2'' ''two'', sampleAnswer ''A3'' ''three'']))"
      "sampleQuestion ''Q1''
       [sampleAnswer ''A1'' ''one'', sampleAnswer ''A2'' ''two'', sampleAnswer ''A3'' ''three'']"
      "\<lparr>au_qid = ''Q1'', au_answer = sampleAnswer ''A2'' ''two'', au_removed = True\<rparr>"]
  by (simp add: sampleState_def sampleQuestion_def sampleAnswer_def handleAnswerUpdate_def
      setQuestion_def)

text \<open>
  Claim C8. Applying the same answer event twice gives the same state as applying it
  once, whether \<open>removed\<close> is set or not, whatever the cache holds and whether or not the
  event is addressed to the active question.
\<close>

theorem answer_update_idempotent:
  "handleAnswerUpdate ev (handleAnswerUpdate ev s) = handleAnswerUpdate ev s"
proof (cases "au_qid ev = questionID s")
  case False
  then show ?thesis by (simp add: handleAnswerUpdate_def)
next
  case True
  show ?thesis
  proof (cases "question s")
    case None
    with True show ?thesis by (simp add: handleAnswerUpdate_def setQuestion_def)
  next
    case (Some q)
    have "map (\<lambda>a. if a_id a = a_id (au_answer ev) then au_answer ev else a)
            (map (\<lambda>a. if a_id a = a_id (au_answer ev) then au_answer ev else a) (answers q))
          = map (\<lambda>a. if a_id a = a_id (au_answer ev) then au_answer ev else a) (answers q)"
      by (rule map_replace_twice) simp
    with True Some show ?thesis
      by (simp add: handleAnswerUpdate_def setQuestion_def)
  qed
qed

theorem answer_update_idempotent_witness:
  "handleAnswerUpdate \<lparr>au_qid = ''Q1'', au_answer = sampleAnswer ''A2'' ''new'', au_removed = False\<rparr>
     (handleAnswerUpdate \<lparr>au_qid = ''Q1'', au_answer = sampleAnswer ''A2'' ''new'', au_removed = False\<rparr>
       (sampleState ''Q1'' (Some (sampleQuestion ''Q1''
          [sampleAnswer ''A1'' ''one'', sampleAnswer ''A2'' ''old'']))))
   = sampleState ''Q1'' (Some (sampleQuestion ''Q1''
          [sampleAnswer ''A1'' ''one'', sampleAnswer ''A2'' ''new'']))"
  using answer_update_idempotent [of
      "\<lparr>au_qid = ''Q1'', au_answer = sampleAnswer ''A2'' ''new'', au_removed = False\<rparr>"
      "sampleState ''Q1'' (Some (sampleQuestion ''Q1''
          [sampleAnswer ''A1'' ''one'', sampleAnswer ''A2'' ''old'']))"]
  by (simp add: sampleState_def sampleQuestion_def sampleAnswer_def handleAnswerUpdate_def
      setQuestion_def)

subsection \<open>Routing by identifier\<close>

text \<open>
  A comment event on an answer is not routed by the identifier of a question: its payload
  is the answer, and the handler replaces the cached answer with the same identifier. The
  identifier of the payload differs from the active one, and the cache changes.
\<close>

theorem isolation_counterexample:
  "target_id (CommentUpdateEv (OnAnswer (sampleAnswer ''A1'' ''new'')))
     \<noteq> questionID (sampleState ''Q1'' (Some (sampleQuestion ''Q1'' [sampleAnswer ''A1'' ''old''])))
   \<and> deliver (CommentUpdateEv (OnAnswer (sampleAnswer ''A1'' ''new'')))
        (sampleState ''Q1'' (Some (sampleQuestion ''Q1'' [sampleAnswer ''A1'' ''old''])))
     = sampleState ''Q1'' (Some (sampleQuestion ''Q1'' [sampleAnswer ''A1'' ''new'']))
   \<and> deliver (CommentUpdateEv (OnAnswer (sampleAnswer ''A1'' ''new'')))
        (sampleState ''Q1'' (Some (sampleQuestion ''Q1'' [sampleAnswer ''A1'' ''old''])))
     \<noteq> sampleState ''Q1'' (Some (sampleQuestion ''Q1'' [sampleAnswer ''A1'' ''old'']))"
  by (simp add: sampleState_def sampleQuestion_def sampleAnswer_def handleCommentUpdate_def
      setQuestion_def)

text \<open>
  Claim C2. An answer, view, vote or repaint event, or a comment event on a question,
  whose target identifier differs from the active identifier leaves the whole state of
  the hook as it is: the cache, and the record of navigations, requests and console
  lines. A comment event on an answer is applied whatever identifier is active and
  whatever identifier its answer has: it replaces in place every cached answer that has
  the identifier of the payload's answer and changes nothing else, and it leaves the
  state as it is when the cache is empty or no cached answer has that identifier.
\<close>

theorem identifier_isolation:
  "(carries_aggregate_id ev \<longrightarrow> target_id ev \<noteq> questionID s \<longrightarrow> deliver ev s = s)
   \<and> (\<forall>a. ev = CommentUpdateEv (OnAnswer a) \<longrightarrow>
        (case question s of
           None \<Rightarrow> deliver ev s = s
         | Some q \<Rightarrow>
             deliver ev s = s\<lparr>question := Some (q\<lparr>answers :=
                 map (\<lambda>x. if a_id x = a_id a then a else x) (answers q)\<rparr>)\<rparr>
             \<and> (a_id a \<notin> a_id ` set (answers q) \<longrightarrow> deliver ev s = s)))"
proof (cases ev)
  case (AnswerUpdateEv p)
  then show ?thesis by (simp add: handleAnswerUpdate_def)
next
  case (ViewsUpdateEv p)
  then show ?thesis by (simp add: handleViewsUpdate_def)
next
  case (CommentUpdateEv p)
  show ?thesis
  proof (cases p)
    case (OnQuestion q)
    with CommentUpdateEv show ?thesis by (simp add: handleCommentUpdate_def)
  next
    case (OnAnswer a)
    show ?thesis
    proof (cases "question s")
      case None
      with OnAnswer CommentUpdateEv show ?thesis
        by (simp add: handleCommentUpdate_def setQuestion_def)
    next
      case (Some q)
      have "a_id a \<notin> a_id ` set (answers q) \<Longrightarrow>
          map (\<lambda>x. if a_id x = a_id a then a else x) (answers q) = answers q"
        by (rule map_replace_absent)
      with Some OnAnswer CommentUpdateEv show ?thesis
        by (auto simp add: handleCommentUpdate_def setQuestion_def)
    qed
  qed
next
  case (VoteUpdateEv p)
  then show ?thesis by (simp add: handleVoteUpdate_def)
next
  case (QuestionUpdateEv p)
  then show ?thesis by (simp add: handleQuestionRepaint_def)
qed

theorem identifier_isolation_witness:
  "carries_aggregate_id (QuestionUpdateEv \<lparr>quest = sampleQuestion ''Q2'' [], qr_removed = True\<rparr>)
   \<and> target_id (QuestionUpdateEv \<lparr>quest = sampleQuestion ''Q2'' [], qr_removed = True\<rparr>)
     \<noteq> questionID (sampleState ''Q1'' (Some (sampleQuestion ''Q1'' [sampleAnswer ''A1'' ''old''])))
   \<and> deliver (QuestionUpdateEv \<lparr>quest = sampleQuestion ''Q2'' [], qr_removed = True\<rparr>)
        (sampleState ''Q1'' (Some (sampleQuestion ''Q1'' [sampleAnswer ''A1'' ''old''])))
     = sampleState ''Q1'' (Some (sampleQuestion ''Q1'' [sampleAnswer ''A1'' ''old'']))
   \<and> a_id (sampleAnswer ''Q1'' ''new'') = questionID (sampleState ''Q1''
        (Some (sampleQuestion ''Q1'' [sampleAnswer ''A1'' ''one'', sampleAnswer ''Q1'' ''old''])))
   \<and> deliver (CommentUpdateEv (OnAnswer (sampleAnswer ''Q1'' ''new'')))
        (sampleState ''Q1'' (Some (sampleQuestion ''Q1'' [sampleAnswer ''A1'' ''one'', sampleAnswer ''Q1'' ''old''])))
     = sampleState ''Q1'' (Some (sampleQuestion ''Q1'' [sampleAnswer ''A1'' ''one'', sampleAnswer ''Q1'' ''new'']))
   \<and> a_id (sampleAnswer ''A7'' ''new'') \<notin> a_id ` set (answers (sampleQuestion ''Q1'' [sampleAnswer ''A1'' ''old'']))
   \<and> deliver (CommentUpdateEv (OnAnswer (sampleAnswer ''A7'' ''new'')))
        (sampleState ''Q1'' (Some (sampleQuestion ''Q1'' [sampleAnswer ''A1'' ''old''])))
     = sampleState ''Q1'' (Some (sampleQuestion ''Q1'' [sampleAnswer ''A1'' ''old'']))"
  using identifier_isolation [of "QuestionUpdateEv \<lparr>quest = sampleQuestion ''Q2'' [], qr_removed = True\<rparr>"
      "sampleState ''Q1'' (Some (sampleQuestion ''Q1'' [sampleAnswer ''A1'' ''old'']))"]
    identifier_isolation [of "CommentUpdateEv (OnAnswer (sampleAnswer ''Q1'' ''new''))"
      "sampleState ''Q1'' (Some (sampleQuestion ''Q1'' [sampleAnswer ''A1'' ''one'', sampleAnswer ''Q1'' ''old'']))"]
    identifier_isolation [of "CommentUpdateEv (OnAnswer (sampleAnswer ''A7'' ''new''))"
      "sampleState ''Q1'' (Some (sampleQuestion ''Q1'' [sampleAnswer ''A1'' ''old'']))"]
  by (simp add: sampleState_def sampleQuestion_def sampleAnswer_def)

subsection \<open>The empty cache\<close>

text \<open>
  \<open>handleViewsUpdate\<close> and the question branch of \<open>handleCommentUpdate\<close> call
  \<open>setQuestion\<close> with the payload itself, not with an updater that inspects the previous
  value: on an empty cache, an event for the active identifier fills it. And
  \<open>handleQuestionRepaint\<close> calls \<open>navigate\<close> before it looks at the cache: on an empty
  cache, a repaint event for the active identifier with \<open>removed\<close> set navigates.
\<close>

theorem null_cache_counterexample:
  "question (sampleState ''Q1'' None) = None
   \<and> deliver (ViewsUpdateEv (sampleQuestion ''Q1'' [])) (sampleState ''Q1'' None)
     = sampleState ''Q1'' (Some (sampleQuestion ''Q1'' []))
   \<and> question (deliver (ViewsUpdateEv (sampleQuestion ''Q1'' [])) (sampleState ''Q1'' None)) \<noteq> None
   \<and> question (deliver (CommentUpdateEv (OnQuestion (sampleQuestion ''Q1'' []))) (sampleState ''Q1'' None))
     \<noteq> None
   \<and> deliver (QuestionUpdateEv \<lparr>quest = sampleQuestion ''Q1'' [], qr_removed = True\<rparr>)
        (sampleState ''Q1'' None)
     = (sampleState ''Q1'' None)\<lparr>navigated := [''/home'']\<rparr>
   \<and> deliver (QuestionUpdateEv \<lparr>quest = sampleQuestion ''Q1'' [], qr_removed = True\<rparr>)
        (sampleState ''Q1'' None)
     \<noteq> sampleState ''Q1'' None"
  by (simp add: sampleState_def sampleQuestion_def handleViewsUpdate_def handleCommentUpdate_def
      handleQuestionRepaint_def navigate_def setQuestionTo_def)

text \<open>
  Claim C3. On an empty cache, the state of the hook after an event is the state before
  it (cache, navigations, requests and console lines), with two exceptions, both for an
  event that carries the active identifier: a view event or a comment event on a
  question sets the cache to the payload's question and changes nothing else; a repaint
  event with \<open>removed\<close> set records the navigation to \<open>/home\<close> and changes nothing else,
  the cache staying empty.
\<close>

theorem null_cache_events:
  assumes "question s = None"
  shows "deliver ev s =
     (case ev of
        ViewsUpdateEv q \<Rightarrow> if q_id q = questionID s then s\<lparr>question := Some q\<rparr> else s
      | CommentUpdateEv (OnQuestion q) \<Rightarrow>
          if q_id q = questionID s then s\<lparr>question := Some q\<rparr> else s
      | QuestionUpdateEv p \<Rightarrow>
          if q_id (quest p) = questionID s \<and> qr_removed p
          then s\<lparr>navigated := navigated s @ [''/home'']\<rparr> else s
      | _ \<Rightarrow> s)"
proof -
  have keep: "setQuestion (\<lambda>prevQuestion. case prevQuestion of Some pq \<Rightarrow> Some (f pq)
      | None \<Rightarrow> prevQuestion) s = s" for f
  proof -
    have "s\<lparr>question := question s\<rparr> = s" by simp
    with assms show ?thesis by (simp add: setQuestion_def)
  qed
  show ?thesis
  proof (cases ev)
    case (AnswerUpdateEv p)
    then show ?thesis by (simp add: handleAnswerUpdate_def keep)
  next
    case (ViewsUpdateEv p)
    then show ?thesis by (simp add: handleViewsUpdate_def setQuestionTo_def)
  next
    case (CommentUpdateEv p)
    then show ?thesis
      by (cases p) (simp_all add: handleCommentUpdate_def keep setQuestionTo_def)
  next
    case (VoteUpdateEv p)
    then show ?thesis by (simp add: handleVoteUpdate_def keep)
  next
    case (QuestionUpdateEv p)
    then show ?thesis
      by (simp add: handleQuestionRepaint_def keep navigate_def)
  qed
qed

theorem null_cache_events_witness:
  "question (sampleState ''Q1'' None) = None
   \<and> deliver (VoteUpdateEv \<lparr>vd_qid = ''Q1'', vd_upVotes = [''u1''], vd_downVotes = []\<rparr>)
        (sampleState ''Q1'' None) = sampleState ''Q1'' None
   \<and> deliver (ViewsUpdateEv (sampleQuestion ''Q1'' [])) (sampleState ''Q1'' None)
     = sampleState ''Q1'' (Some (sampleQuestion ''Q1'' []))
   \<and> deliver (QuestionUpdateEv \<lparr>quest = sampleQuestion ''Q1'' [], qr_removed = True\<rparr>)
        (sampleState ''Q1'' None)
     = (sampleState ''Q1'' None)\<lparr>navigated := [''/home'']\<rparr>
   \<and> deliver (QuestionUpdateEv \<lparr>quest = sampleQuestion ''Q1'' [], qr_removed = False\<rparr>)
        (sampleState ''Q1'' None)
     = sampleState ''Q1'' None"
  using null_cache_events [of "sampleState ''Q1'' None"
      "VoteUpdateEv \<lparr>vd_qid = ''Q1'', vd_upVotes = [''u1''], vd_downVotes = []\<rparr>"]
    null_cache_events [of "sampleState ''Q1'' None" "ViewsUpdateEv (sampleQuestion ''Q1'' [])"]
    null_cache_events [of "sampleState ''Q1'' None"
      "QuestionUpdateEv \<lparr>quest = sampleQuestion ''Q1'' [], qr_removed = True\<rparr>"]
    null_cache_events [of "sampleState ''Q1'' None"
      "QuestionUpdateEv \<lparr>quest = sampleQuestion ''Q1'' [], qr_removed = False\<rparr>"]
  by (simp add: sampleState_def sampleQuestion_def)

subsection \<open>Vote events\<close>

text \<open>
  Claim C4. With a cached question and a vote event whose \<open>qid\<close> is the active
  identifier, the cached question gets the payload's \<open>upVotes\<close> and \<open>downVotes\<close>, and
  nothing else changes: putting the two old lists back gives the old question, and the
  state of the hook changes in its cache only.
\<close>

theorem vote_update_frame:
  assumes "question s = Some q" and "vd_qid v = questionID s"
  shows "\<exists>q'. handleVoteUpdate v s = s\<lparr>question := Some q'\<rparr>
     \<and> upVotes q' = vd_upVotes v \<and> downVotes q' = vd_downVotes v
     \<and> q'\<lparr>upVotes := upVotes q, downVotes := downVotes q\<rparr> = q
     \<and> q_id q' = q_id q \<and> q_text q' = q_text q \<and> askedBy q' = askedBy q
     \<and> askDateTime q' = askDateTime q \<and> views q' = views q \<and> pinned q' = pinned q
     \<and> locked q' = locked q \<and> answers q' = answers q \<and> comments q' = comments q"
proof -
  let ?q = "q\<lparr>upVotes := vd_upVotes v, downVotes := vd_downVotes v\<rparr>"
  from assms have "handleVoteUpdate v s = s\<lparr>question := Some ?q\<rparr>"
    by (simp add: handleVoteUpdate_def setQuestion_def)
  moreover have "?q\<lparr>upVotes := upVotes q, downVotes := downVotes q\<rparr> = q" by simp
  ultimately show ?thesis by (intro exI [of _ ?q]) simp
qed

theorem vote_update_frame_witness:
  "question (sampleState ''Q1'' (Some (sampleQuestion ''Q1'' [sampleAnswer ''A1'' ''one'']))) =
     Some (sampleQuestion ''Q1'' [sampleAnswer ''A1'' ''one''])
   \<and> vd_qid \<lparr>vd_qid = ''Q1'', vd_upVotes = [''u3'', ''u4''], vd_downVotes = []\<rparr>
     = questionID (sampleState ''Q1'' (Some (sampleQuestion ''Q1'' [sampleAnswer ''A1'' ''one''])))
   \<and> handleVoteUpdate \<lparr>vd_qid = ''Q1'', vd_upVotes = [''u3'', ''u4''], vd_downVotes = []\<rparr>
       (sampleState ''Q1'' (Some (sampleQuestion ''Q1'' [sampleAnswer ''A1'' ''one''])))
     = sampleState ''Q1'' (Some ((sampleQuestion ''Q1'' [sampleAnswer ''A1'' ''one''])
         \<lparr>upVotes := [''u3'', ''u4''], downVotes := []\<rparr>))"
  using vote_update_frame [of "sampleState ''Q1'' (Some (sampleQuestion ''Q1'' [sampleAnswer ''A1'' ''one'']))"
      "sampleQuestion ''Q1'' [sampleAnswer ''A1'' ''one'']"
      "\<lparr>vd_qid = ''Q1'', vd_upVotes = [''u3'', ''u4''], vd_downVotes = []\<rparr>"]
  by (simp add: sampleState_def sampleQuestion_def sampleAnswer_def handleVoteUpdate_def
      setQuestion_def)

text \<open>
  \<open>handleVoteUpdate\<close> copies the two lists of the payload and compares nothing: a user
  named in both lists of the payload is in both lists of the cache.
\<close>

theorem vote_disjoint_counterexample:
  "question (sampleState ''Q1'' (Some (sampleQuestion ''Q1'' []))) = Some (sampleQuestion ''Q1'' [])
   \<and> vd_qid \<lparr>vd_qid = ''Q1'', vd_upVotes = [''u1''], vd_downVotes = [''u1'']\<rparr>
     = questionID (sampleState ''Q1'' (Some (sampleQuestion ''Q1'' [])))
   \<and> question (handleVoteUpdate \<lparr>vd_qid = ''Q1'', vd_upVotes = [''u1''], vd_downVotes = [''u1'']\<rparr>
       (sampleState ''Q1'' (Some (sampleQuestion ''Q1'' []))))
     = Some ((sampleQuestion ''Q1'' [])\<lparr>upVotes := [''u1''], downVotes := [''u1'']\<rparr>)
   \<and> set (upVotes ((sampleQuestion ''Q1'' [])\<lparr>upVotes := [''u1''], downVotes := [''u1'']\<rparr>))
     \<inter> set (downVotes ((sampleQuestion ''Q1'' [])\<lparr>upVotes := [''u1''], downVotes := [''u1'']\<rparr>))
     \<noteq> {}"
  by (simp add: sampleState_def sampleQuestion_def handleVoteUpdate_def setQuestion_def)

text \<open>
  Claim C6. With a cached question and a vote event whose \<open>qid\<close> is the active identifier
  and whose \<open>upVotes\<close> and \<open>downVotes\<close> share no member, the \<open>upVotes\<close> and \<open>downVotes\<close> of
  the cached question share no member after the merge.
\<close>

theorem vote_update_disjoint:
  assumes "question s = Some q" and "vd_qid v = questionID s"
    and "set (vd_upVotes v) \<inter> set (vd_downVotes v) = {}"
  shows "\<exists>q'. question (handleVoteUpdate v s) = Some q'
     \<and> set (upVotes q') \<inter> set (downVotes q') = {}"
  using assms by (simp add: handleVoteUpdate_def setQuestion_def)

theorem vote_update_disjoint_witness:
  "question (sampleState ''Q1'' (Some (sampleQuestion ''Q1'' []))) = Some (sampleQuestion ''Q1'' [])
   \<and> vd_qid \<lparr>vd_qid = ''Q1'', vd_upVotes = [''u1'', ''u2''], vd_downVotes = [''u3'']\<rparr>
     = questionID (sampleState ''Q1'' (Some (sampleQuestion ''Q1'' [])))
   \<and> set (vd_upVotes \<lparr>vd_qid = ''Q1'', vd_upVotes = [''u1'', ''u2''], vd_downVotes = [''u3'']\<rparr>)
     \<inter> set (vd_downVotes \<lparr>vd_qid = ''Q1'', vd_upVotes = [''u1'', ''u2''], vd_downVotes = [''u3'']\<rparr>) = {}
   \<and> (\<exists>q'. question (handleVoteUpdate \<lparr>vd_qid = ''Q1'', vd_upVotes = [''u1'', ''u2''], vd_downVotes = [''u3'']\<rparr>
          (sampleState ''Q1'' (Some (sampleQuestion ''Q1'' [])))) = Some q'
        \<and> set (upVotes q') \<inter> set (downVotes q') = {})"
  using vote_update_disjoint [of "sampleState ''Q1'' (Some (sampleQuestion ''Q1'' []))"
      "sampleQuestion ''Q1'' []"
      "\<lparr>vd_qid = ''Q1'', vd_upVotes = [''u1'', ''u2''], vd_downVotes = [''u3'']\<rparr>"]
  by (simp add: sampleState_def sampleQuestion_def)

subsection \<open>Repaint events\<close>

text \<open>
  Claim C5. With a cached question and a repaint event whose question has the active
  identifier: with \<open>removed\<close> set, \<open>navigate('/home')\<close> is called and the cache keeps its
  value; with \<open>removed\<close> not set, the cached question gets the payload's \<open>pinned\<close> and
  \<open>locked\<close> and nothing else changes, the answers included.
\<close>

theorem repaint_merge:
  assumes "question s = Some q" and "q_id (quest ev) = questionID s"
  shows "(qr_removed ev \<longrightarrow>
            handleQuestionRepaint ev s = s\<lparr>navigated := navigated s @ [''/home'']\<rparr>
            \<and> question (handleQuestionRepaint ev s) = Some q)
       \<and> (\<not> qr_removed ev \<longrightarrow>
            (\<exists>q'. handleQuestionRepaint ev s = s\<lparr>question := Some q'\<rparr>
               \<and> pinned q' = pinned (quest ev) \<and> locked q' = locked (quest ev)
               \<and> q'\<lparr>pinned := pinned q, locked := locked q\<rparr> = q
               \<and> answers q' = answers q))"
proof (cases "qr_removed ev")
  case True
  with assms show ?thesis
    by (simp add: handleQuestionRepaint_def navigate_def)
next
  case False
  let ?q = "q\<lparr>pinned := pinned (quest ev), locked := locked (quest ev)\<rparr>"
  from False assms have "handleQuestionRepaint ev s = s\<lparr>question := Some ?q\<rparr>"
    by (simp add: handleQuestionRepaint_def setQuestion_def)
  moreover have "?q\<lparr>pinned := pinned q, locked := locked q\<rparr> = q" by simp
  ultimately have "\<exists>q'. handleQuestionRepaint ev s = s\<lparr>question := Some q'\<rparr>
               \<and> pinned q' = pinned (quest ev) \<and> locked q' = locked (quest ev)
               \<and> q'\<lparr>pinned := pinned q, locked := locked q\<rparr> = q
               \<and> answers q' = answers q"
    by (intro exI [of _ ?q]) simp
  with False show ?thesis by simp
qed

theorem repaint_merge_witness:
  "question (sampleState ''Q1'' (Some (sampleQuestion ''Q1'' [sampleAnswer ''A1'' ''one''])))
     = Some (sampleQuestion ''Q1'' [sampleAnswer ''A1'' ''one''])
   \<and> q_id (quest \<lparr>quest = (sampleQuestion ''Q1'' [])\<lparr>pinned := True\<rparr>, qr_removed = False\<rparr>)
     = questionID (sampleState ''Q1'' (Some (sampleQuestion ''Q1'' [sampleAnswer ''A1'' ''one''])))
   \<and> handleQuestionRepaint \<lparr>quest = (sampleQuestion ''Q1'' [])\<lparr>pinned := True\<rparr>, qr_removed = False\<rparr>
       (sampleState ''Q1'' (Some (sampleQuestion ''Q1'' [sampleAnswer ''A1'' ''one''])))
     = sampleState ''Q1'' (Some ((sampleQuestion ''Q1'' [sampleAnswer ''A1'' ''one''])\<lparr>pinned := True\<rparr>))
   \<and> q_id (quest \<lparr>quest = sampleQuestion ''Q1'' [], qr_removed = True\<rparr>)
     = questionID (sampleState ''Q1'' (Some (sampleQuestion ''Q1'' [sampleAnswer ''A1'' ''one''])))
   \<and> handleQuestionRepaint \<lparr>quest = sampleQuestion ''Q1'' [], qr_removed = True\<rparr>
       (sampleState ''Q1'' (Some (sampleQuestion ''Q1'' [sampleAnswer ''A1'' ''one''])))
     = (sampleState ''Q1'' (Some (sampleQuestion ''Q1'' [sampleAnswer ''A1'' ''one''])))
         \<lparr>navigated := [''/home'']\<rparr>"
  using repaint_merge [of "sampleState ''Q1'' (Some (sampleQuestion ''Q1'' [sampleAnswer ''A1'' ''one'']))"
      "sampleQuestion ''Q1'' [sampleAnswer ''A1'' ''one'']"
      "\<lparr>quest = (sampleQuestion ''Q1'' [])\<lparr>pinned := True\<rparr>, qr_removed = False\<rparr>"]
    repaint_merge [of "sampleState ''Q1'' (Some (sampleQuestion ''Q1'' [sampleAnswer ''A1'' ''one'']))"
      "sampleQuestion ''Q1'' [sampleAnswer ''A1'' ''one'']"
      "\<lparr>quest = sampleQuestion ''Q1'' [], qr_removed = True\<rparr>"]
  by (simp add: sampleState_def sampleQuestion_def sampleAnswer_def handleQuestionRepaint_def
      setQuestion_def navigate_def)

subsection \<open>Comment events\<close>

text \<open>
  Claim C9. For two comment events on a question, both carrying the active identifier,
  with questions \<open>v1\<close> and \<open>v2\<close>: after the first then the second the cache is \<open>v2\<close>, and
  after the second then the first it is \<open>v1\<close>. The last one applied wins.
\<close>

theorem comment_question_last_wins:
  assumes "q_id v1 = questionID s" and "q_id v2 = questionID s"
  shows "question (handleCommentUpdate (OnQuestion v2) (handleCommentUpdate (OnQuestion v1) s)) = Some v2
       \<and> question (handleCommentUpdate (OnQuestion v1) (handleCommentUpdate (OnQuestion v2) s)) = Some v1"
  using assms by (simp add: handleCommentUpdate_def setQuestionTo_def)

theorem comment_question_last_wins_witness:
  "q_id ((sampleQuestion ''Q1'' [])\<lparr>comments := [sampleComment]\<rparr>)
     = questionID (sampleState ''Q1'' (Some (sampleQuestion ''Q1'' [])))
   \<and> q_id ((sampleQuestion ''Q1'' [])\<lparr>comments := [sampleComment, sampleComment\<lparr>c_id := ''C2''\<rparr>]\<rparr>)
     = questionID (sampleState ''Q1'' (Some (sampleQuestion ''Q1'' [])))
   \<and> question (handleCommentUpdate
        (OnQuestion ((sampleQuestion ''Q1'' [])\<lparr>comments := [sampleComment, sampleComment\<lparr>c_id := ''C2''\<rparr>]\<rparr>))
        (handleCommentUpdate (OnQuestion ((sampleQuestion ''Q1'' [])\<lparr>comments := [sampleComment]\<rparr>))
          (sampleState ''Q1'' (Some (sampleQuestion ''Q1'' [])))))
     = Some ((sampleQuestion ''Q1'' [])\<lparr>comments := [sampleComment, sampleComment\<lparr>c_id := ''C2''\<rparr>]\<rparr>)
   \<and> question (handleCommentUpdate
        (OnQuestion ((sampleQuestion ''Q1'' [])\<lparr>comments := [sampleComment]\<rparr>))
        (handleCommentUpdate
          (OnQuestion ((sampleQuestion ''Q1'' [])\<lparr>comments := [sampleComment, sampleComment\<lparr>c_id := ''C2''\<rparr>]\<rparr>))
          (sampleState ''Q1'' (Some (sampleQuestion ''Q1'' [])))))
     = Some ((sampleQuestion ''Q1'' [])\<lparr>comments := [sampleComment]\<rparr>)"
  using comment_question_last_wins [of "(sampleQuestion ''Q1'' [])\<lparr>comments := [sampleComment]\<rparr>"
      "sampleState ''Q1'' (Some (sampleQuestion ''Q1'' []))"
      "(sampleQuestion ''Q1'' [])\<lparr>comments := [sampleComment, sampleComment\<lparr>c_id := ''C2''\<rparr>]\<rparr>"]
  by (simp add: sampleState_def sampleQuestion_def)

subsection \<open>Submitting a comment\<close>

text \<open>
  Claim C10. \<open>handleNewComment\<close> with an undefined target identifier calls \<open>addComment\<close>
  not at all, resolves, and leaves the cache as it is; when \<open>addComment\<close> rejects, the
  rejection is caught, the promise resolves and the cache is as it was. The promise of
  \<open>handleNewComment\<close> resolves for every gateway and every argument.
\<close>

theorem new_comment_absorbs_errors:
  "fst (handleNewComment gw comment targetType None s) = Inr ()
   \<and> requests (snd (handleNewComment gw comment targetType None s)) = requests s
   \<and> question (snd (handleNewComment gw comment targetType None s)) = question s
   \<and> (\<forall>t e. gw t targetType comment = Inl e \<longrightarrow>
         fst (handleNewComment gw comment targetType (Some t) s) = Inr ()
         \<and> question (snd (handleNewComment gw comment targetType (Some t) s)) = question s)
   \<and> fst (handleNewComment gw comment targetType targetId s) = Inr ()"
proof -
  have none: "handleNewComment gw comment targetType None s =
      (Inr (), s\<lparr>console := console s @ [(''Error adding comment:'', Error ''No target ID provided.'')]\<rparr>)"
    by (simp add: handleNewComment_def handleNewComment_try_def console_error_def)
  have some: "fst (handleNewComment gw comment targetType (Some t) s) = Inr ()
      \<and> question (snd (handleNewComment gw comment targetType (Some t) s)) = question s" for t
    by (cases "gw t targetType comment")
      (simp_all add: handleNewComment_def handleNewComment_try_def addComment_def console_error_def)
  have "fst (handleNewComment gw comment targetType targetId s) = Inr ()"
    using none some by (cases targetId) simp_all
  with none some show ?thesis by simp
qed

theorem new_comment_absorbs_errors_witness:
  "handleNewComment rejecting sampleComment TAnswer None (sampleState ''Q1'' None)
     = (Inr (), (sampleState ''Q1'' None)
          \<lparr>console := [(''Error adding comment:'', Error ''No target ID provided.'')]\<rparr>)
   \<and> rejecting ''A1'' TAnswer sampleComment = Inl (Error ''rejected'')
   \<and> fst (handleNewComment rejecting sampleComment TAnswer (Some ''A1'') (sampleState ''Q1'' None)) = Inr ()
   \<and> requests (snd (handleNewComment rejecting sampleComment TAnswer (Some ''A1'') (sampleState ''Q1'' None)))
     = [(''A1'', TAnswer, sampleComment)]"
  using new_comment_absorbs_errors [of rejecting sampleComment TAnswer "sampleState ''Q1'' None" "Some ''A1''"]
  by (simp add: sampleState_def rejecting_def handleNewComment_def handleNewComment_try_def
      addComment_def console_error_def)

end
